theory Spec2Isabelle
  imports Complex_Main
begin

section \<open>Calls into the browser library, and exceptions\<close>

text \<open>
  The calls \<^verbatim>\<open>Web\<close> makes into the browser-driving library that open or release a
  resource: \<^verbatim>\<open>sync_playwright().start()\<close>, \<^verbatim>\<open>chromium.launch(headless)\<close>,
  \<^verbatim>\<open>browser.new_context()\<close>, \<^verbatim>\<open>context.new_page()\<close>, \<^verbatim>\<open>page.goto(url)\<close>, and the four
  calls of \<^verbatim>\<open>close\<close>.
\<close>

datatype pw_call =
    Playwright_start
  | Chromium_launch bool
  | New_context
  | New_page
  | Goto string
  | Page_close
  | Context_close
  | Browser_close
  | Playwright_stop

text \<open>
  The exceptions the modelled Python code raises itself (\<^verbatim>\<open>assert\<close>, \<^verbatim>\<open>raise ValueError\<close>),
  that the interpreter raises on its behalf (\<^verbatim>\<open>time.sleep\<close> with a negative length,
  subscripting \<^verbatim>\<open>None\<close>), each with its message, and the error of a browser-library call
  that fails, with the call.
\<close>

datatype py_error =
    AssertionError string
  | ValueError string
  | TypeError string
  | PlaywrightError pw_call

text \<open>The one exception of the image-matching library that the code catches.\<close>

datatype pg_error = ImageNotFoundException

section \<open>The desktop the input library acts on\<close>

text \<open>
  A \<^verbatim>\<open>pyscreeze.Box\<close> is the named tuple \<^verbatim>\<open>(left, top, width, height)\<close>.
\<close>

datatype Box = Box int int int int

text \<open>
  Every call that leaves the program is recorded: \<^verbatim>\<open>time.sleep\<close>, \<^verbatim>\<open>pg.locateOnScreen\<close>,
  \<^verbatim>\<open>pg.moveTo\<close> and \<^verbatim>\<open>pg.click\<close> (with its \<^verbatim>\<open>x\<close>, \<^verbatim>\<open>y\<close>, \<^verbatim>\<open>button\<close> and \<^verbatim>\<open>clicks\<close> arguments).
\<close>

datatype io_call =
    Sleep real
  | LocateOnScreen string
  | MoveTo int int
  | Click "int option" "int option" string int

text \<open>
  The surroundings of a run, which the program does not control: where on the screen the
  image stored at a path is visible at a given instant (if at all), and how long a call
  takes. That includes \<^verbatim>\<open>time.sleep(secs)\<close>, which suspends the caller for at least
  \<^verbatim>\<open>secs\<close> seconds and possibly longer: \<open>cost e (Sleep secs)\<close> is the time it really takes.
\<close>

record env =
  screen :: "string \<Rightarrow> real \<Rightarrow> Box option"
  cost :: "io_call \<Rightarrow> real"

text \<open>
  The state a run threads through: the clock read by \<^verbatim>\<open>time.time()\<close> (in seconds, as an
  ideal real number), the pointer position, and the calls made so far, each with the clock
  reading at which it was issued.
\<close>

record world =
  now :: real
  pointer :: "int \<times> int"
  calls :: "(real \<times> io_call) list"

definition lib_call :: "env \<Rightarrow> io_call \<Rightarrow> world \<Rightarrow> world" where
  "lib_call e c w = w\<lparr>now := now w + cost e c, calls := calls w @ [(now w, c)]\<rparr>"

text \<open>
  \<^verbatim>\<open>time.sleep(secs)\<close> raises \<^verbatim>\<open>ValueError\<close> on a negative length and otherwise suspends the
  caller for as long as the surroundings make this sleep last.
\<close>

definition time_sleep :: "env \<Rightarrow> real \<Rightarrow> world \<Rightarrow> py_error + world" where
  "time_sleep e secs w =
     (if secs < 0 then Inl (ValueError ''sleep length must be non-negative'')
      else Inr (lib_call e (Sleep secs) w))"

text \<open>
  \<^verbatim>\<open>pg.locateOnScreen(path)\<close> looks at the screen as it is when the call is issued; it
  returns the matched region or raises \<^verbatim>\<open>ImageNotFoundException\<close>.
\<close>

definition pg_locateOnScreen :: "env \<Rightarrow> string \<Rightarrow> world \<Rightarrow> (pg_error + Box) \<times> world" where
  "pg_locateOnScreen e p w =
     (case screen e p (now w) of
        None \<Rightarrow> (Inl ImageNotFoundException, lib_call e (LocateOnScreen p) w)
      | Some b \<Rightarrow> (Inr b, lib_call e (LocateOnScreen p) w))"

text \<open>
  \<^verbatim>\<open>pg.center(box)\<close> is \<^verbatim>\<open>Point(left + int(width / 2), top + int(height / 2))\<close>; \<^verbatim>\<open>int\<close>
  truncates towards zero. Applied to \<^verbatim>\<open>None\<close> it raises \<^verbatim>\<open>TypeError\<close>.
\<close>

definition int_half :: "int \<Rightarrow> int" where
  "int_half n = (if 0 \<le> n then n div 2 else - ((- n) div 2))"

fun pg_center :: "Box option \<Rightarrow> py_error + (int \<times> int)" where
  "pg_center None = Inl (TypeError ''NoneType object is not subscriptable'')"
| "pg_center (Some (Box l t wd ht)) = Inr (l + int_half wd, t + int_half ht)"

definition pg_moveTo :: "env \<Rightarrow> int \<times> int \<Rightarrow> world \<Rightarrow> world" where
  "pg_moveTo e p w = (lib_call e (MoveTo (fst p) (snd p)) w)\<lparr>pointer := p\<rparr>"

text \<open>
  \<^verbatim>\<open>pg.click(x, y, button, clicks)\<close>: a coordinate left as \<^verbatim>\<open>None\<close> keeps the pointer's
  current one.
\<close>

definition pg_click :: "env \<Rightarrow> int option \<Rightarrow> int option \<Rightarrow> string \<Rightarrow> int \<Rightarrow> world \<Rightarrow> world" where
  "pg_click e xo yo b n w =
     (lib_call e (Click xo yo b n) w)
       \<lparr>pointer := (case xo of None \<Rightarrow> fst (pointer w) | Some a \<Rightarrow> a,
                    case yo of None \<Rightarrow> snd (pointer w) | Some a \<Rightarrow> a)\<rparr>"

section \<open>IOClick\<close>

text \<open>
  The attributes of \<^verbatim>\<open>IOClick\<close>; its \<^verbatim>\<open>x\<close> and \<^verbatim>\<open>y\<close> are \<open>cx\<close> and \<open>cy\<close> here.
\<close>

record IOClick =
  clicks :: int
  cx :: "int option"
  cy :: "int option"
  button :: string
  interval_wait :: real

definition IOClick_init :: IOClick where
  "IOClick_init = \<lparr>clicks = 1, cx = None, cy = None, button = ''primary'', interval_wait = 0\<rparr>"

definition IOClick_at :: "int \<Rightarrow> int \<Rightarrow> IOClick \<Rightarrow> IOClick" where
  "IOClick_at a b c = c\<lparr>cx := Some a, cy := Some b\<rparr>"

definition IOClick_wait :: "real \<Rightarrow> IOClick \<Rightarrow> IOClick" where
  "IOClick_wait t c = c\<lparr>interval_wait := t\<rparr>"

definition IOClick_repeat :: "int \<Rightarrow> IOClick \<Rightarrow> py_error + IOClick" where
  "IOClick_repeat n c =
     (if n \<noteq> 0 then Inr (c\<lparr>clicks := n\<rparr>) else Inl (AssertionError ''Cannot click 0 times''))"

text \<open>
  The \<^verbatim>\<open>for _ in range(self.clicks)\<close> loop of \<^verbatim>\<open>IOClick.run\<close>, by the number of iterations
  left: sleep, then one click.
\<close>

fun click_loop :: "env \<Rightarrow> IOClick \<Rightarrow> nat \<Rightarrow> world \<Rightarrow> py_error + world" where
  "click_loop e c 0 w = Inr w"
| "click_loop e c (Suc k) w =
     (case time_sleep e (interval_wait c) w of
        Inl err \<Rightarrow> Inl err
      | Inr w1 \<Rightarrow> click_loop e c k (pg_click e (cx c) (cy c) (button c) 1 w1))"

text \<open>\<^verbatim>\<open>range(n)\<close> is empty for \<^verbatim>\<open>n <= 0\<close>, so the loop runs \<open>nat n\<close> times.\<close>

definition IOClick_run :: "env \<Rightarrow> IOClick \<Rightarrow> world \<Rightarrow> py_error + world" where
  "IOClick_run e c w =
     (if interval_wait c = 0
      then Inr (pg_click e (cx c) (cy c) (button c) (clicks c) w)
      else click_loop e c (nat (clicks c)) w)"

section \<open>IOPixel\<close>

record IOPixel =
  px :: "int option"
  py :: "int option"
  rgb :: "(int \<times> int \<times> int) option"

definition IOPixel_init :: "int option \<Rightarrow> int option \<Rightarrow> IOPixel" where
  "IOPixel_init a b = \<lparr>px = a, py = b, rgb = None\<rparr>"

definition set_rgb :: "int \<Rightarrow> int \<Rightarrow> int \<Rightarrow> IOPixel \<Rightarrow> py_error + IOPixel" where
  "set_rgb r g b p =
     (if \<not> (0 \<le> r \<and> r \<le> 255) then Inl (AssertionError ''Invalid red value'')
      else if \<not> (0 \<le> g \<and> g \<le> 255) then Inl (AssertionError ''Invalid green value'')
      else if \<not> (0 \<le> b \<and> b \<le> 255) then Inl (AssertionError ''Invalid blue value'')
      else Inr (p\<lparr>rgb := Some (r, g, b)\<rparr>))"

section \<open>IOImage\<close>

record IOImage =
  path :: string
  wait_for :: bool
  timeout :: real
  tolerance :: int
  place_mouse :: bool

text \<open>
  The constructor checks the path against the file system (given here by its two
  predicates) and sets the defaults; a timeout of \<open>-1\<close> stands for "none".
\<close>

definition IOImage_init :: "(string \<Rightarrow> bool) \<Rightarrow> (string \<Rightarrow> bool) \<Rightarrow> string \<Rightarrow> py_error + IOImage" where
  "IOImage_init path_exists path_isfile p =
     (if \<not> path_exists p then Inl (AssertionError (''`'' @ p @ ''` does not exist''))
      else if \<not> path_isfile p then Inl (AssertionError (''`'' @ p @ ''` is not a file''))
      else Inr \<lparr>path = p, wait_for = False, timeout = -1, tolerance = 0, place_mouse = False\<rparr>)"

definition check_for :: "IOImage \<Rightarrow> IOImage" where
  "check_for img = img\<lparr>wait_for := False\<rparr>"

definition set_timeout :: "real \<Rightarrow> IOImage \<Rightarrow> IOImage" where
  "set_timeout t img = img\<lparr>timeout := t\<rparr>"

definition place_mouse_over :: "IOImage \<Rightarrow> IOImage" where
  "place_mouse_over img = img\<lparr>place_mouse := True\<rparr>"

definition set_tolerance :: "int \<Rightarrow> IOImage \<Rightarrow> IOImage" where
  "set_tolerance n img = img\<lparr>tolerance := n\<rparr>"

definition wait_for_presence :: "IOImage \<Rightarrow> IOImage" where
  "wait_for_presence img = img\<lparr>wait_for := True\<rparr>"

text \<open>
  \<^verbatim>\<open>is_existing\<close>: one \<^verbatim>\<open>pg.locateOnScreen(self.path)\<close> inside \<^verbatim>\<open>try\<close>; the
  \<^verbatim>\<open>except ImageNotFoundException\<close> branch returns \<^verbatim>\<open>(False, None)\<close>.
\<close>

definition is_existing :: "env \<Rightarrow> IOImage \<Rightarrow> world \<Rightarrow> (bool \<times> Box option) \<times> world" where
  "is_existing e img w =
     (case pg_locateOnScreen e (path img) w of
        (Inr box, w1) \<Rightarrow> ((True, Some box), w1)
      | (Inl ImageNotFoundException, w1) \<Rightarrow> ((False, None), w1))"

text \<open>
  Both polling branches of \<^verbatim>\<open>run\<close> test \<^verbatim>\<open>self.place_mouse_over\<close>. That attribute is the
  bound method of this name, not the flag \<^verbatim>\<open>self.place_mouse\<close> that the method sets, and a
  bound method is true in a boolean context whatever the instance holds.
\<close>

definition place_mouse_over_truth :: "IOImage \<Rightarrow> bool" where
  "place_mouse_over_truth img = True"

text \<open>
  What \<^verbatim>\<open>run\<close> does once a polling branch has found the image: the test above, the move
  to the centre, and \<^verbatim>\<open>return True, box\<close>.
\<close>

definition found_polling ::
  "env \<Rightarrow> IOImage \<Rightarrow> Box option \<Rightarrow> world \<Rightarrow> (py_error + bool \<times> Box option) \<times> world" where
  "found_polling e img box w =
     (if place_mouse_over_truth img
      then (case pg_center box of
              Inl err \<Rightarrow> (Inl err, w)
            | Inr center_point \<Rightarrow> (Inr (True, box), pg_moveTo e center_point w))
      else (Inr (True, box), w))"

text \<open>
  The \<^verbatim>\<open>while True\<close> loop without a timeout. It need not return, so its value is an
  option: \<open>None\<close> is a run that polls for ever.
\<close>

partial_function (option) poll_forever ::
  "env \<Rightarrow> IOImage \<Rightarrow> world \<Rightarrow> ((py_error + bool \<times> Box option) \<times> world) option" where
  "poll_forever e img w =
     (case is_existing e img w of
        ((exists, box), w1) \<Rightarrow>
          if exists then Some (found_polling e img box w1)
          else (case time_sleep e (1 / 100) w1 of
                  Inl err \<Rightarrow> Some (Inl err, w1)
                | Inr w2 \<Rightarrow> poll_forever e img w2))"

text \<open>
  The \<^verbatim>\<open>while True\<close> loop with a timeout; \<open>start\<close> is the clock reading taken before the
  loop. Each round sleeps, compares the elapsed time with the timeout, and only then
  looks at the screen.
\<close>

partial_function (option) poll_timed ::
  "env \<Rightarrow> IOImage \<Rightarrow> real \<Rightarrow> world \<Rightarrow> ((py_error + bool \<times> Box option) \<times> world) option" where
  "poll_timed e img start w =
     (case time_sleep e (1 / 100) w of
        Inl err \<Rightarrow> Some (Inl err, w)
      | Inr w1 \<Rightarrow>
          if now w1 - start \<ge> timeout img then Some (Inr (False, None), w1)
          else (case is_existing e img w1 of
                  ((exists, box), w2) \<Rightarrow>
                    if exists then Some (found_polling e img box w2)
                    else poll_timed e img start w2))"

text \<open>The branch of \<^verbatim>\<open>run\<close> that checks once.\<close>

definition check_once ::
  "env \<Rightarrow> IOImage \<Rightarrow> world \<Rightarrow> (py_error + bool \<times> Box option) \<times> world" where
  "check_once e img w =
     (case is_existing e img w of
        ((exists, box), w1) \<Rightarrow>
          if exists \<and> place_mouse img
          then (case pg_center box of
                  Inl err \<Rightarrow> (Inl err, w1)
                | Inr center_point \<Rightarrow> (Inr (exists, box), pg_moveTo e center_point w1))
          else (Inr (exists, box), w1))"

definition IOImage_run ::
  "env \<Rightarrow> IOImage \<Rightarrow> world \<Rightarrow> ((py_error + bool \<times> Box option) \<times> world) option" where
  "IOImage_run e img w =
     (if wait_for img
      then (if timeout img = -1 then poll_forever e img w else poll_timed e img (now w) w)
      else Some (check_once e img w))"

section \<open>Web\<close>

text \<open>
  A session is the list of the library calls that have succeeded so far. Which calls fail
  is for the surroundings to say. A method body that is a sequence of library calls makes
  them in order; the first one that fails raises, and the rest of the body is skipped.
\<close>

fun pw_calls :: "(pw_call \<Rightarrow> bool) \<Rightarrow> pw_call list \<Rightarrow> pw_call list \<Rightarrow> py_error option \<times> pw_call list" where
  "pw_calls fails [] l = (None, l)"
| "pw_calls fails (c # cs) l =
     (if fails c then (Some (PlaywrightError c), l) else pw_calls fails cs (l @ [c]))"

record Web =
  url :: string
  headless :: bool

definition Web_init :: "string \<Rightarrow> Web" where
  "Web_init u = \<lparr>url = u, headless = False\<rparr>"

definition enable_headless :: "Web \<Rightarrow> Web" where
  "enable_headless web = web\<lparr>headless := True\<rparr>"

definition Web_start :: "(pw_call \<Rightarrow> bool) \<Rightarrow> Web \<Rightarrow> pw_call list \<Rightarrow> py_error option \<times> pw_call list" where
  "Web_start fails web l =
     pw_calls fails
       [Playwright_start, Chromium_launch (headless web), New_context, New_page, Goto (url web)] l"

definition Web_redirect ::
  "(pw_call \<Rightarrow> bool) \<Rightarrow> string \<Rightarrow> Web \<Rightarrow> pw_call list \<Rightarrow> py_error option \<times> Web \<times> pw_call list" where
  "Web_redirect fails u web l =
     (case pw_calls fails [Goto u] l of (raised, l1) \<Rightarrow> (raised, web\<lparr>url := u\<rparr>, l1))"

text \<open>
  A \<^verbatim>\<open>Locator\<close> is the page's answer to \<^verbatim>\<open>page.locator(expr)\<close>; it is identified by the
  expression. \<^verbatim>\<open>find\<close> matches \<^verbatim>\<open>by\<close> against five string literals, in the order of the
  source, and raises \<^verbatim>\<open>ValueError\<close> in the default case.
\<close>

datatype Locator = Locator string

definition Web_find :: "string \<Rightarrow> string \<Rightarrow> py_error + Locator" where
  "Web_find selector by =
     (if by = ''css'' then Inr (Locator selector)
      else if by = ''id'' then Inr (Locator (''#'' @ selector))
      else if by = ''class'' then Inr (Locator (''.'' @ selector))
      else if by = ''xpath'' then Inr (Locator (''xpath='' @ selector))
      else if by = ''text'' then Inr (Locator (''text='' @ selector))
      else Inl (ValueError (''`'' @ by @ ''` is unsupported'')))"

definition Web_close :: "(pw_call \<Rightarrow> bool) \<Rightarrow> Web \<Rightarrow> pw_call list \<Rightarrow> py_error option \<times> pw_call list" where
  "Web_close fails web l =
     pw_calls fails [Page_close, Context_close, Browser_close, Playwright_stop] l"

text \<open>
  \<^verbatim>\<open>__enter__\<close> starts the session and returns \<^verbatim>\<open>self\<close>; \<^verbatim>\<open>__exit__\<close> ignores the exception
  it is handed, closes, and returns \<^verbatim>\<open>None\<close>.
\<close>

definition Web_enter :: "(pw_call \<Rightarrow> bool) \<Rightarrow> Web \<Rightarrow> pw_call list \<Rightarrow> py_error option \<times> pw_call list" where
  "Web_enter fails web l = Web_start fails web l"

definition Web_exit ::
  "(pw_call \<Rightarrow> bool) \<Rightarrow> py_error option \<Rightarrow> Web \<Rightarrow> pw_call list \<Rightarrow> py_error option \<times> pw_call list" where
  "Web_exit fails raised web l = Web_close fails web l"

text \<open>
  The statement \<^verbatim>\<open>with Web(url) as web: body\<close>. When \<^verbatim>\<open>__enter__\<close> raises, Python runs
  neither the body nor \<^verbatim>\<open>__exit__\<close>. Otherwise the body works on the entered object and the
  session, and either finishes or raises (\<open>Some\<close> of the exception); Python calls \<^verbatim>\<open>__exit__\<close>
  in both cases. An exception raised inside \<^verbatim>\<open>__exit__\<close> leaves the statement in place of
  the body's; otherwise \<^verbatim>\<open>__exit__\<close> returns \<^verbatim>\<open>None\<close> and the body's exception propagates.
\<close>

definition with_Web ::
  "(pw_call \<Rightarrow> bool) \<Rightarrow> Web \<Rightarrow> (Web \<Rightarrow> pw_call list \<Rightarrow> py_error option \<times> Web \<times> pw_call list)
     \<Rightarrow> pw_call list \<Rightarrow> py_error option \<times> pw_call list" where
  "with_Web fails web body l =
     (case Web_enter fails web l of
        (Some err, l1) \<Rightarrow> (Some err, l1)
      | (None, l1) \<Rightarrow>
          (case body web l1 of
             (raised, web2, l2) \<Rightarrow>
               (case Web_exit fails raised web2 l2 of
                  (Some err, l3) \<Rightarrow> (Some err, l3)
                | (None, l3) \<Rightarrow> (raised, l3))))"

fun is_teardown :: "pw_call \<Rightarrow> bool" where
  "is_teardown Page_close = True"
| "is_teardown Context_close = True"
| "is_teardown Browser_close = True"
| "is_teardown Playwright_stop = True"
| "is_teardown _ = False"

section \<open>Reading a trace, and example surroundings\<close>

text \<open>
  A list of calls in which every \<^verbatim>\<open>pg.locateOnScreen\<close> comes directly after a
  \<^verbatim>\<open>time.sleep(0.01)\<close>.
\<close>

fun sleep_guards_locate :: "io_call list \<Rightarrow> bool" where
  "sleep_guards_locate [] = True"
| "sleep_guards_locate (Sleep d # LocateOnScreen p # cs) = (d = 1 / 100 \<and> sleep_guards_locate cs)"
| "sleep_guards_locate (LocateOnScreen p # cs) = False"
| "sleep_guards_locate (c # cs) = sleep_guards_locate cs"

text \<open>
  A list of timed calls in which every \<^verbatim>\<open>pg.locateOnScreen\<close> was issued before a deadline,
  and one in which every \<^verbatim>\<open>pg.locateOnScreen\<close> looked at a screen without the image.
\<close>

fun queries_before :: "real \<Rightarrow> (real \<times> io_call) list \<Rightarrow> bool" where
  "queries_before d [] = True"
| "queries_before d ((\<tau>, LocateOnScreen p) # cs) = (\<tau> < d \<and> queries_before d cs)"
| "queries_before d (c # cs) = queries_before d cs"

fun queries_miss :: "env \<Rightarrow> (real \<times> io_call) list \<Rightarrow> bool" where
  "queries_miss e [] = True"
| "queries_miss e ((\<tau>, LocateOnScreen p) # cs) = (screen e p \<tau> = None \<and> queries_miss e cs)"
| "queries_miss e (c # cs) = queries_miss e cs"

text \<open>
  Screens on which the image is never visible, always visible at a fixed place, or visible
  from an instant on. A library whose sleeps last exactly as asked and whose other calls
  all take the same time \<open>d\<close>, and one whose sleeps last \<open>g\<close> whatever was asked (a coarse
  timer). A fresh desktop, and an \<^verbatim>\<open>IOImage\<close> for \<^verbatim>\<open>button.png\<close> with the three settings that
  matter.
\<close>

definition blank_screen :: "string \<Rightarrow> real \<Rightarrow> Box option" where
  "blank_screen p \<tau> = None"

definition steady_screen :: "Box \<Rightarrow> string \<Rightarrow> real \<Rightarrow> Box option" where
  "steady_screen b p \<tau> = Some b"

definition late_screen :: "real \<Rightarrow> Box \<Rightarrow> string \<Rightarrow> real \<Rightarrow> Box option" where
  "late_screen t b p \<tau> = (if \<tau> < t then None else Some b)"

fun flat_cost :: "real \<Rightarrow> io_call \<Rightarrow> real" where
  "flat_cost d (Sleep secs) = secs"
| "flat_cost d c = d"

fun coarse_cost :: "real \<Rightarrow> real \<Rightarrow> io_call \<Rightarrow> real" where
  "coarse_cost g d (Sleep secs) = g"
| "coarse_cost g d c = d"

definition idle_world :: world where
  "idle_world = \<lparr>now = 0, pointer = (0, 0), calls = []\<rparr>"

definition probe :: "bool \<Rightarrow> real \<Rightarrow> bool \<Rightarrow> IOImage" where
  "probe polling t flag =
     \<lparr>path = ''button.png'', wait_for = polling, timeout = t, tolerance = 0, place_mouse = flag\<rparr>"

text \<open>
  Surroundings of a browser session: no call fails, navigation fails, closing the context
  fails.
\<close>

definition no_failure :: "pw_call \<Rightarrow> bool" where
  "no_failure c = False"

fun goto_fails :: "pw_call \<Rightarrow> bool" where
  "goto_fails (Goto u) = True"
| "goto_fails c = False"

fun context_close_fails :: "pw_call \<Rightarrow> bool" where
  "context_close_fails Context_close = True"
| "context_close_fails c = False"

text \<open>
  Block bodies: one navigates on and then looks an element up with a strategy \<^verbatim>\<open>find\<close>
  does not know, so that it leaves by the \<^verbatim>\<open>ValueError\<close>; one does nothing; one calls
  \<^verbatim>\<open>close\<close> itself before the block ends.
\<close>

definition failing_body ::
  "(pw_call \<Rightarrow> bool) \<Rightarrow> Web \<Rightarrow> pw_call list \<Rightarrow> py_error option \<times> Web \<times> pw_call list" where
  "failing_body fails web l =
     (case Web_redirect fails ''https://example.org/next'' web l of
        (Some err, web1, l1) \<Rightarrow> (Some err, web1, l1)
      | (None, web1, l1) \<Rightarrow>
          (case Web_find ''main'' ''regex'' of
             Inl err \<Rightarrow> (Some err, web1, l1)
           | Inr loc \<Rightarrow> (None, web1, l1)))"

definition empty_body :: "Web \<Rightarrow> pw_call list \<Rightarrow> py_error option \<times> Web \<times> pw_call list" where
  "empty_body web l = (None, web, l)"

definition closing_body ::
  "(pw_call \<Rightarrow> bool) \<Rightarrow> Web \<Rightarrow> pw_call list \<Rightarrow> py_error option \<times> Web \<times> pw_call list" where
  "closing_body fails web l =
     (case Web_close fails web l of (raised, l1) \<Rightarrow> (raised, web, l1))"

section \<open>Single steps of the library and of the loops\<close>

lemma now_lib_call: "now (lib_call e c w) = now w + cost e c"
  by (simp add: lib_call_def)

lemma calls_lib_call: "calls (lib_call e c w) = calls w @ [(now w, c)]"
  by (simp add: lib_call_def)

lemma pointer_lib_call: "pointer (lib_call e c w) = pointer w"
  by (simp add: lib_call_def)

lemma time_sleep_tick: "time_sleep e (1 / 100) w = Inr (lib_call e (Sleep (1 / 100)) w)"
  by (simp add: time_sleep_def)

lemma is_existing_absent:
  "screen e (path img) (now w) = None \<Longrightarrow>
   is_existing e img w = ((False, None), lib_call e (LocateOnScreen (path img)) w)"
  by (simp add: is_existing_def pg_locateOnScreen_def)

lemma is_existing_present:
  "screen e (path img) (now w) = Some b \<Longrightarrow>
   is_existing e img w = ((True, Some b), lib_call e (LocateOnScreen (path img)) w)"
  by (simp add: is_existing_def pg_locateOnScreen_def)

lemma now_pg_click: "now (pg_click e xo yo b n w) = now w + cost e (Click xo yo b n)"
  by (simp add: pg_click_def lib_call_def)

lemma calls_pg_click: "calls (pg_click e xo yo b n w) = calls w @ [(now w, Click xo yo b n)]"
  by (simp add: pg_click_def lib_call_def)

lemma click_loop_Suc:
  "0 \<le> interval_wait c \<Longrightarrow>
   click_loop e c (Suc n) w =
     click_loop e c n
       (pg_click e (cx c) (cy c) (button c) 1 (lib_call e (Sleep (interval_wait c)) w))"
  by (simp add: time_sleep_def)

text \<open>
  Once the image is found, a polling branch moves the pointer and returns found: the test
  it makes is true and the centre of a region is defined.
\<close>

lemma found_polling_Some:
  "\<exists>p. found_polling e img (Some b) w = (Inr (True, Some b), pg_moveTo e p w)"
  by (cases b) (auto simp add: found_polling_def place_mouse_over_truth_def)

lemma calls_pg_moveTo: "calls (pg_moveTo e p w) = calls w @ [(now w, MoveTo (fst p) (snd p))]"
  by (simp add: pg_moveTo_def lib_call_def)

lemma poll_timed_expired:
  "timeout img \<le> now w + cost e (Sleep (1 / 100)) - start \<Longrightarrow>
   poll_timed e img start w = Some (Inr (False, None), lib_call e (Sleep (1 / 100)) w)"
  by (subst poll_timed.simps) (simp add: time_sleep_tick now_lib_call)

lemma poll_timed_absent_step:
  "\<not> timeout img \<le> now w + cost e (Sleep (1 / 100)) - start \<Longrightarrow>
   screen e (path img) (now w + cost e (Sleep (1 / 100))) = None \<Longrightarrow>
   poll_timed e img start w =
     poll_timed e img start
       (lib_call e (LocateOnScreen (path img)) (lib_call e (Sleep (1 / 100)) w))"
  by (subst poll_timed.simps) (simp add: time_sleep_tick is_existing_absent now_lib_call)

lemma poll_timed_found_step:
  "\<not> timeout img \<le> now w + cost e (Sleep (1 / 100)) - start \<Longrightarrow>
   screen e (path img) (now w + cost e (Sleep (1 / 100))) = Some b \<Longrightarrow>
   poll_timed e img start w =
     Some (found_polling e img (Some b)
       (lib_call e (LocateOnScreen (path img)) (lib_call e (Sleep (1 / 100)) w)))"
  by (subst poll_timed.simps) (simp add: time_sleep_tick is_existing_present now_lib_call)

lemma queries_before_mem:
  "queries_before d cs \<Longrightarrow> (\<tau>, LocateOnScreen p) \<in> set cs \<Longrightarrow> \<tau> < d"
  by (induction d cs rule: queries_before.induct) auto

section \<open>What a timed loop has done when it returns\<close>

text \<open>
  By induction over the loop. The calls added are rounds of one sleep and one query, each
  query issued before the deadline \<open>start + timeout\<close>, closed either by the sleep after which
  the timeout was found expired (then every query missed the image and the pointer is
  where it was) or by the move that follows the query that found the image.
\<close>

lemma poll_timed_trace:
  assumes "poll_timed e img start w = Some y"
  shows "\<exists>cs. calls (snd y) = calls w @ cs \<and> sleep_guards_locate (map snd cs)
      \<and> queries_before (start + timeout img) cs
      \<and> ((fst y = Inr (False, None) \<and> timeout img \<le> now (snd y) - start
            \<and> queries_miss e cs \<and> pointer (snd y) = pointer w)
          \<or> (\<exists>b \<tau>. fst y = Inr (True, Some b) \<and> (\<tau>, LocateOnScreen (path img)) \<in> set cs
                \<and> screen e (path img) \<tau> = Some b))"
proof (rule poll_timed.raw_induct
    [where P = "\<lambda>e img start w y.
       \<exists>cs. calls (snd y) = calls w @ cs \<and> sleep_guards_locate (map snd cs)
      \<and> queries_before (start + timeout img) cs
      \<and> ((fst y = Inr (False, None) \<and> timeout img \<le> now (snd y) - start
            \<and> queries_miss e cs \<and> pointer (snd y) = pointer w)
          \<or> (\<exists>b \<tau>. fst y = Inr (True, Some b) \<and> (\<tau>, LocateOnScreen (path img)) \<in> set cs
                \<and> screen e (path img) \<tau> = Some b))",
     OF _ assms], goal_cases)
  case (1 poll e img start w y)
  let ?w1 = "lib_call e (Sleep (1 / 100)) w"
  let ?w2 = "lib_call e (LocateOnScreen (path img)) ?w1"
  let ?round = "[(now w, Sleep (1 / 100)), (now ?w1, LocateOnScreen (path img))]"
  have c2: "calls ?w2 = calls w @ ?round"
    by (simp add: calls_lib_call)
  show ?case
  proof (cases "timeout img \<le> now ?w1 - start")
    case True
    with 1(2) have "y = (Inr (False, None), ?w1)"
      by (simp add: time_sleep_tick)
    then show ?thesis
      using True by (intro exI [of _ "[(now w, Sleep (1 / 100))]"]) (simp add: lib_call_def)
  next
    case False
    then have early: "now ?w1 < start + timeout img" by simp
    show ?thesis
    proof (cases "screen e (path img) (now ?w1)")
      case None
      with False 1(2) have again: "poll e img start ?w2 = Some y"
        by (simp add: time_sleep_tick is_existing_absent)
      from 1(1) [OF again] obtain cs where
        cs: "calls (snd y) = calls ?w2 @ cs" "sleep_guards_locate (map snd cs)"
          "queries_before (start + timeout img) cs"
        and out: "(fst y = Inr (False, None) \<and> timeout img \<le> now (snd y) - start
            \<and> queries_miss e cs \<and> pointer (snd y) = pointer ?w2)
          \<or> (\<exists>b \<tau>. fst y = Inr (True, Some b) \<and> (\<tau>, LocateOnScreen (path img)) \<in> set cs
                \<and> screen e (path img) \<tau> = Some b)"
        by blast
      from cs early have shape: "calls (snd y) = calls w @ (?round @ cs)
          \<and> sleep_guards_locate (map snd (?round @ cs))
          \<and> queries_before (start + timeout img) (?round @ cs)"
        unfolding c2 by simp
      from out None have "(fst y = Inr (False, None) \<and> timeout img \<le> now (snd y) - start
            \<and> queries_miss e (?round @ cs) \<and> pointer (snd y) = pointer w)
          \<or> (\<exists>b \<tau>. fst y = Inr (True, Some b) \<and> (\<tau>, LocateOnScreen (path img)) \<in> set (?round @ cs)
                \<and> screen e (path img) \<tau> = Some b)"
        by (auto simp add: pointer_lib_call)
      with shape show ?thesis by blast
    next
      case (Some b)
      with False 1(2) have y: "y = found_polling e img (Some b) ?w2"
        by (simp add: time_sleep_tick is_existing_present)
      from found_polling_Some [of e img b ?w2] obtain p where
        y': "y = (Inr (True, Some b), pg_moveTo e p ?w2)"
        unfolding y by blast
      let ?cs = "?round @ [(now ?w2, MoveTo (fst p) (snd p))]"
      have "calls (snd y) = calls w @ ?cs"
        unfolding y' by (simp add: calls_pg_moveTo c2)
      moreover have "sleep_guards_locate (map snd ?cs)" by simp
      moreover from early have "queries_before (start + timeout img) ?cs" by simp
      moreover have "fst y = Inr (True, Some b) \<and> (now ?w1, LocateOnScreen (path img)) \<in> set ?cs
          \<and> screen e (path img) (now ?w1) = Some b"
        unfolding y' using Some by simp
      ultimately show ?thesis by blast
    qed
  qed
qed

section \<open>A timed loop returns\<close>

text \<open>
  When a sleep of a hundredth of a second lasts at least that long and a query takes no
  negative time, every round moves the clock on by a hundredth at least; with \<open>n\<close>
  hundredths bounding what is left of the timeout, the loop returns after at most \<open>n + 1\<close>
  rounds. A loop entered no later than one query after the deadline returns not-found no
  later than one sleep and one query after it.
\<close>

lemma poll_timed_returns_within:
  assumes s: "1 / 100 \<le> cost e (Sleep (1 / 100))"
    and q: "0 \<le> cost e (LocateOnScreen (path img))"
  shows "start + timeout img - now w \<le> real n / 100 \<Longrightarrow>
    \<exists>y. poll_timed e img start w = Some y
      \<and> (now w - start \<le> timeout img + cost e (LocateOnScreen (path img)) \<longrightarrow>
           fst y = Inr (False, None) \<longrightarrow>
           now (snd y) - start
             \<le> timeout img + cost e (Sleep (1 / 100)) + cost e (LocateOnScreen (path img)))"
proof (induction n arbitrary: w)
  case 0
  with s have "timeout img \<le> now w + cost e (Sleep (1 / 100)) - start" by simp
  then show ?case
    by (simp add: poll_timed_expired now_lib_call)
next
  case (Suc n)
  let ?w2 = "lib_call e (LocateOnScreen (path img)) (lib_call e (Sleep (1 / 100)) w)"
  show ?case
  proof (cases "timeout img \<le> now w + cost e (Sleep (1 / 100)) - start")
    case True
    then show ?thesis by (simp add: poll_timed_expired now_lib_call)
  next
    case False
    show ?thesis
    proof (cases "screen e (path img) (now w + cost e (Sleep (1 / 100)))")
      case None
      have step: "poll_timed e img start w = poll_timed e img start ?w2"
        using False None by (rule poll_timed_absent_step)
      have now2: "now ?w2 = now w + cost e (Sleep (1 / 100)) + cost e (LocateOnScreen (path img))"
        by (simp add: now_lib_call)
      from Suc.prems s q have "start + timeout img - now ?w2 \<le> real n / 100"
        unfolding now2 by (simp add: field_simps)
      from Suc.IH [OF this] obtain y where
        res: "poll_timed e img start ?w2 = Some y"
        and hi: "now ?w2 - start \<le> timeout img + cost e (LocateOnScreen (path img)) \<longrightarrow>
           fst y = Inr (False, None) \<longrightarrow>
           now (snd y) - start
             \<le> timeout img + cost e (Sleep (1 / 100)) + cost e (LocateOnScreen (path img))"
        by blast
      from False have "now ?w2 - start \<le> timeout img + cost e (LocateOnScreen (path img))"
        unfolding now2 by simp
      with hi res step show ?thesis by simp
    next
      case (Some b)
      have "poll_timed e img start w = Some (found_polling e img (Some b) ?w2)"
        using False Some by (rule poll_timed_found_step)
      moreover from found_polling_Some [of e img b ?w2]
      have "fst (found_polling e img (Some b) ?w2) \<noteq> Inr (False, None)"
        by auto
      ultimately show ?thesis by simp
    qed
  qed
qed

lemma poll_timed_returns:
  assumes s: "1 / 100 \<le> cost e (Sleep (1 / 100))"
    and q: "0 \<le> cost e (LocateOnScreen (path img))"
  shows "\<exists>y. poll_timed e img start w = Some y
      \<and> (now w - start \<le> timeout img + cost e (LocateOnScreen (path img)) \<longrightarrow>
           fst y = Inr (False, None) \<longrightarrow>
           now (snd y) - start
             \<le> timeout img + cost e (Sleep (1 / 100)) + cost e (LocateOnScreen (path img)))"
proof -
  obtain n :: nat where "(start + timeout img - now w) * 100 \<le> real n"
    using real_arch_simple by blast
  then have "start + timeout img - now w \<le> real n / 100" by simp
  then show ?thesis by (rule poll_timed_returns_within [OF s q])
qed

text \<open>Running a sequence of browser calls none of which fails appends them all.\<close>

lemma pw_calls_all:
  "\<forall>c \<in> set cs. \<not> fails c \<Longrightarrow> pw_calls fails cs l = (None, l @ cs)"
  by (induction cs arbitrary: l) simp_all

lemma pw_calls_None:
  "fst (pw_calls fails cs l) = None \<Longrightarrow> snd (pw_calls fails cs l) = l @ cs"
  by (induction cs arbitrary: l) (simp_all split: if_splits)

section \<open>The claims\<close>

text \<open>
  C1. For an \<^verbatim>\<open>IOImage\<close> in polling mode whose run finds the image, the pointer should move
  to the centre of the match if and only if \<^verbatim>\<open>place_mouse\<close> was set. The code does not do
  that: with polling on, no timeout, the flag unset and the image on the screen at
  \<open>(100, 200)\<close>, \<open>50\<close> wide and \<open>40\<close> high, the run returns found with that region and has
  moved the pointer from \<open>(0, 0)\<close> to the centre \<open>(125, 220)\<close>; so does the run with a
  timeout of five seconds. The same setting with polling off leaves the pointer where it
  was.
\<close>

theorem polling_run_moves_pointer_without_flag:
  "IOImage_run \<lparr>screen = steady_screen (Box 100 200 50 40), cost = flat_cost 0\<rparr>
       (probe True (- 1) False) idle_world
     = Some (Inr (True, Some (Box 100 200 50 40)),
         \<lparr>now = 0, pointer = (125, 220),
          calls = [(0, LocateOnScreen ''button.png''), (0, MoveTo 125 220)]\<rparr>)
   \<and> IOImage_run \<lparr>screen = steady_screen (Box 100 200 50 40), cost = flat_cost 0\<rparr>
       (probe True 5 False) idle_world
     = Some (Inr (True, Some (Box 100 200 50 40)),
         \<lparr>now = 1 / 100, pointer = (125, 220),
          calls = [(0, Sleep (1 / 100)), (1 / 100, LocateOnScreen ''button.png''),
                   (1 / 100, MoveTo 125 220)]\<rparr>)
   \<and> place_mouse (probe True (- 1) False) = False
   \<and> place_mouse (probe True 5 False) = False
   \<and> IOImage_run \<lparr>screen = steady_screen (Box 100 200 50 40), cost = flat_cost 0\<rparr>
       (probe False (- 1) False) idle_world
     = Some (Inr (True, Some (Box 100 200 50 40)),
         \<lparr>now = 0, pointer = (0, 0), calls = [(0, LocateOnScreen ''button.png'')]\<rparr>)"
proof -
  have polling: "poll_forever \<lparr>screen = steady_screen (Box 100 200 50 40), cost = flat_cost 0\<rparr>
       (probe True (- 1) False) idle_world
     = Some (Inr (True, Some (Box 100 200 50 40)),
         \<lparr>now = 0, pointer = (125, 220),
          calls = [(0, LocateOnScreen ''button.png''), (0, MoveTo 125 220)]\<rparr>)"
    by (subst poll_forever.simps)
       (simp add: probe_def idle_world_def is_existing_def pg_locateOnScreen_def steady_screen_def
          lib_call_def found_polling_def place_mouse_over_truth_def int_half_def pg_moveTo_def)
  have timed: "poll_timed \<lparr>screen = steady_screen (Box 100 200 50 40), cost = flat_cost 0\<rparr>
       (probe True 5 False) 0 idle_world
     = Some (Inr (True, Some (Box 100 200 50 40)),
         \<lparr>now = 1 / 100, pointer = (125, 220),
          calls = [(0, Sleep (1 / 100)), (1 / 100, LocateOnScreen ''button.png''),
                   (1 / 100, MoveTo 125 220)]\<rparr>)"
    by (subst poll_timed.simps)
       (simp add: probe_def idle_world_def time_sleep_def is_existing_def pg_locateOnScreen_def
          steady_screen_def lib_call_def found_polling_def place_mouse_over_truth_def
          int_half_def pg_moveTo_def)
  have once: "check_once \<lparr>screen = steady_screen (Box 100 200 50 40), cost = flat_cost 0\<rparr>
       (probe False (- 1) False) idle_world
     = (Inr (True, Some (Box 100 200 50 40)),
         \<lparr>now = 0, pointer = (0, 0), calls = [(0, LocateOnScreen ''button.png'')]\<rparr>)"
    by (simp add: check_once_def probe_def idle_world_def is_existing_def pg_locateOnScreen_def
          steady_screen_def lib_call_def)
  show ?thesis
    unfolding IOImage_run_def using polling timed once by (simp add: probe_def idle_world_def)
qed

text \<open>
  C2. A polling run with a configured timeout \<open>t\<close> (any value but the "none" mark \<open>-1\<close>)
  returns, and it reports \<^verbatim>\<open>(False, None)\<close> unless a match was found before the elapsed
  time reached \<open>t\<close>. Every query of the run was issued at an elapsed time below \<open>t\<close>. Either
  all of them missed the image, and the run reports \<^verbatim>\<open>(False, None)\<close> at an elapsed time
  of at least \<open>t\<close>; or the run reports found, with the region that one of these queries
  saw. A match that shows only when the elapsed time is \<open>t\<close> or more is never seen, so a
  tie resolves to not-found. A sleep of a hundredth of a second lasts at least that long,
  and a query takes no negative time.
\<close>

theorem run_timeout_reports_not_found:
  assumes "wait_for img" and "timeout img \<noteq> - 1"
    and "1 / 100 \<le> cost e (Sleep (1 / 100))"
    and "0 \<le> cost e (LocateOnScreen (path img))"
  shows "\<exists>r w' cs. IOImage_run e img w = Some (r, w') \<and> calls w' = calls w @ cs
      \<and> queries_before (now w + timeout img) cs
      \<and> ((r = Inr (False, None) \<and> timeout img \<le> now w' - now w \<and> queries_miss e cs)
          \<or> (\<exists>b \<tau>. r = Inr (True, Some b) \<and> (\<tau>, LocateOnScreen (path img)) \<in> set cs
                \<and> \<tau> - now w < timeout img \<and> screen e (path img) \<tau> = Some b))"
proof -
  from poll_timed_returns [OF assms(3,4), of "now w" w]
  obtain y where y: "poll_timed e img (now w) w = Some y"
    by blast
  from poll_timed_trace [OF y] obtain cs where
    cs: "calls (snd y) = calls w @ cs" "queries_before (now w + timeout img) cs"
    and out: "(fst y = Inr (False, None) \<and> timeout img \<le> now (snd y) - now w
            \<and> queries_miss e cs \<and> pointer (snd y) = pointer w)
          \<or> (\<exists>b \<tau>. fst y = Inr (True, Some b) \<and> (\<tau>, LocateOnScreen (path img)) \<in> set cs
                \<and> screen e (path img) \<tau> = Some b)"
    by blast
  from out cs(2) have "(fst y = Inr (False, None) \<and> timeout img \<le> now (snd y) - now w
            \<and> queries_miss e cs)
          \<or> (\<exists>b \<tau>. fst y = Inr (True, Some b) \<and> (\<tau>, LocateOnScreen (path img)) \<in> set cs
                \<and> \<tau> - now w < timeout img \<and> screen e (path img) \<tau> = Some b)"
    by (auto dest: queries_before_mem)
  moreover from assms(1,2) y have "IOImage_run e img w = Some (fst y, snd y)"
    by (simp add: IOImage_run_def)
  ultimately show ?thesis
    using cs by blast
qed

text \<open>
  Two such runs. The image shows from \<open>0.02\<close> seconds on, a query takes a second, the
  timeout is half a second: the one query, at \<open>0.01\<close>, misses, and the run reports not-found
  at \<open>1.02\<close>. The image is there all the time and the timeout is one poll interval: the
  elapsed time equals the timeout at the first check, and the run reports not-found.
\<close>

theorem run_timeout_reports_not_found_witness:
  "IOImage_run \<lparr>screen = late_screen (1 / 50) (Box 100 200 50 40), cost = flat_cost 1\<rparr>
       (probe True (1 / 2) False) idle_world
     = Some (Inr (False, None),
         \<lparr>now = 51 / 50, pointer = (0, 0),
          calls = [(0, Sleep (1 / 100)), (1 / 100, LocateOnScreen ''button.png''),
                   (101 / 100, Sleep (1 / 100))]\<rparr>)
   \<and> queries_before (1 / 2)
        [(0, Sleep (1 / 100)), (1 / 100, LocateOnScreen ''button.png''), (101 / 100, Sleep (1 / 100))]
   \<and> queries_miss \<lparr>screen = late_screen (1 / 50) (Box 100 200 50 40), cost = flat_cost 1\<rparr>
        [(0, Sleep (1 / 100)), (1 / 100, LocateOnScreen ''button.png''), (101 / 100, Sleep (1 / 100))]
   \<and> IOImage_run \<lparr>screen = steady_screen (Box 100 200 50 40), cost = flat_cost 0\<rparr>
       (probe True (1 / 100) False) idle_world
     = Some (Inr (False, None),
         \<lparr>now = 1 / 100, pointer = (0, 0), calls = [(0, Sleep (1 / 100))]\<rparr>)"
proof -
  have late: "poll_timed \<lparr>screen = late_screen (1 / 50) (Box 100 200 50 40), cost = flat_cost 1\<rparr>
       (probe True (1 / 2) False) 0 idle_world
     = Some (Inr (False, None),
         \<lparr>now = 51 / 50, pointer = (0, 0),
          calls = [(0, Sleep (1 / 100)), (1 / 100, LocateOnScreen ''button.png''),
                   (101 / 100, Sleep (1 / 100))]\<rparr>)"
    by (simp add: poll_timed_absent_step poll_timed_expired probe_def idle_world_def
          late_screen_def lib_call_def)
  have tie: "poll_timed \<lparr>screen = steady_screen (Box 100 200 50 40), cost = flat_cost 0\<rparr>
       (probe True (1 / 100) False) 0 idle_world
     = Some (Inr (False, None),
         \<lparr>now = 1 / 100, pointer = (0, 0), calls = [(0, Sleep (1 / 100))]\<rparr>)"
    by (simp add: poll_timed_expired probe_def idle_world_def lib_call_def)
  have "\<exists>r w' cs. IOImage_run \<lparr>screen = late_screen (1 / 50) (Box 100 200 50 40), cost = flat_cost 1\<rparr>
       (probe True (1 / 2) False) idle_world = Some (r, w') \<and> calls w' = calls idle_world @ cs
      \<and> queries_before (now idle_world + timeout (probe True (1 / 2) False)) cs
      \<and> ((r = Inr (False, None) \<and> timeout (probe True (1 / 2) False) \<le> now w' - now idle_world
            \<and> queries_miss \<lparr>screen = late_screen (1 / 50) (Box 100 200 50 40), cost = flat_cost 1\<rparr> cs)
          \<or> (\<exists>b \<tau>. r = Inr (True, Some b)
                \<and> (\<tau>, LocateOnScreen (path (probe True (1 / 2) False))) \<in> set cs
                \<and> \<tau> - now idle_world < timeout (probe True (1 / 2) False)
                \<and> screen \<lparr>screen = late_screen (1 / 50) (Box 100 200 50 40), cost = flat_cost 1\<rparr>
                      (path (probe True (1 / 2) False)) \<tau> = Some b))"
    by (rule run_timeout_reports_not_found) (simp_all add: probe_def)
  then have "queries_before (1 / 2)
        [(0, Sleep (1 / 100)), (1 / 100, LocateOnScreen ''button.png''), (101 / 100, Sleep (1 / 100))]
   \<and> queries_miss \<lparr>screen = late_screen (1 / 50) (Box 100 200 50 40), cost = flat_cost 1\<rparr>
        [(0, Sleep (1 / 100)), (1 / 100, LocateOnScreen ''button.png''), (101 / 100, Sleep (1 / 100))]"
    using late by (auto simp add: IOImage_run_def probe_def idle_world_def)
  with late tie show ?thesis
    by (simp add: IOImage_run_def probe_def idle_world_def)
qed

text \<open>
  C3, as stated: for a timeout \<open>t > 0\<close> and an image that never appears, the run reports
  not-found no earlier than \<open>t\<close> and no later than \<open>t\<close> plus one poll interval. The upper
  bound fails as soon as looking at the screen takes time: with a timeout of a tenth of a
  second and queries of a fifth of a second, the run sleeps, queries, sleeps again and
  returns at \<open>0.22\<close> seconds, later than \<open>0.1 + 0.01\<close>. It also fails when a sleep lasts
  longer than asked: with sleeps of \<open>16\<close> milliseconds, free queries and a timeout of \<open>20\<close>
  milliseconds the run returns at \<open>32\<close> milliseconds, later than \<open>20 + 10\<close>.
\<close>

theorem run_not_found_later_than_one_interval:
  "IOImage_run \<lparr>screen = blank_screen, cost = flat_cost (1 / 5)\<rparr> (probe True (1 / 10) False) idle_world
     = Some (Inr (False, None),
         \<lparr>now = 11 / 50, pointer = (0, 0),
          calls = [(0, Sleep (1 / 100)), (1 / 100, LocateOnScreen ''button.png''),
                   (21 / 100, Sleep (1 / 100))]\<rparr>)
   \<and> \<not> (11 / 50 - now idle_world \<le> timeout (probe True (1 / 10) False) + 1 / 100)
   \<and> IOImage_run \<lparr>screen = blank_screen, cost = coarse_cost (2 / 125) 0\<rparr>
        (probe True (1 / 50) False) idle_world
     = Some (Inr (False, None),
         \<lparr>now = 4 / 125, pointer = (0, 0),
          calls = [(0, Sleep (1 / 100)), (2 / 125, LocateOnScreen ''button.png''),
                   (2 / 125, Sleep (1 / 100))]\<rparr>)
   \<and> \<not> (4 / 125 - now idle_world \<le> timeout (probe True (1 / 50) False) + 1 / 100)"
proof -
  have slow_query: "poll_timed \<lparr>screen = blank_screen, cost = flat_cost (1 / 5)\<rparr>
       (probe True (1 / 10) False) 0 idle_world
     = Some (Inr (False, None),
         \<lparr>now = 11 / 50, pointer = (0, 0),
          calls = [(0, Sleep (1 / 100)), (1 / 100, LocateOnScreen ''button.png''),
                   (21 / 100, Sleep (1 / 100))]\<rparr>)"
    by (simp add: poll_timed_absent_step poll_timed_expired probe_def idle_world_def
          blank_screen_def lib_call_def)
  have long_sleep: "poll_timed \<lparr>screen = blank_screen, cost = coarse_cost (2 / 125) 0\<rparr>
       (probe True (1 / 50) False) 0 idle_world
     = Some (Inr (False, None),
         \<lparr>now = 4 / 125, pointer = (0, 0),
          calls = [(0, Sleep (1 / 100)), (2 / 125, LocateOnScreen ''button.png''),
                   (2 / 125, Sleep (1 / 100))]\<rparr>)"
    by (simp add: poll_timed_absent_step poll_timed_expired probe_def idle_world_def
          blank_screen_def lib_call_def)
  from slow_query long_sleep show ?thesis
    by (simp add: IOImage_run_def probe_def idle_world_def)
qed

text \<open>
  C3, amended: for a timeout \<open>t > 0\<close> and an image that never appears, the polling run
  reports not-found no earlier than \<open>t\<close> after it started and no later than \<open>t\<close> plus the
  time one sleep of a poll interval really lasts plus the time one screen query takes.
  The sleep lasts at least the poll interval, and the query takes no negative time.
\<close>

theorem run_not_found_time_bounds:
  assumes "wait_for img" and "0 < timeout img"
    and "1 / 100 \<le> cost e (Sleep (1 / 100))"
    and "0 \<le> cost e (LocateOnScreen (path img))"
    and "\<forall>\<tau>. screen e (path img) \<tau> = None"
  shows "\<exists>w'. IOImage_run e img w = Some (Inr (False, None), w')
          \<and> timeout img \<le> now w' - now w
          \<and> now w' - now w
              \<le> timeout img + cost e (Sleep (1 / 100)) + cost e (LocateOnScreen (path img))"
proof -
  from assms(2,4) have "now w - now w \<le> timeout img + cost e (LocateOnScreen (path img))"
    by simp
  with poll_timed_returns [OF assms(3,4), of "now w" w]
  obtain y where y: "poll_timed e img (now w) w = Some y"
    and hi: "fst y = Inr (False, None) \<longrightarrow>
           now (snd y) - now w
             \<le> timeout img + cost e (Sleep (1 / 100)) + cost e (LocateOnScreen (path img))"
    by blast
  from poll_timed_trace [OF y] assms(5)
  have nf: "fst y = Inr (False, None)" and lo: "timeout img \<le> now (snd y) - now w"
    by auto
  from assms(1,2) y nf have "IOImage_run e img w = Some (Inr (False, None), snd y)"
    by (simp add: IOImage_run_def prod_eq_iff)
  with lo hi nf show ?thesis by blast
qed

theorem run_not_found_time_bounds_witness:
  "\<exists>w'. IOImage_run \<lparr>screen = blank_screen, cost = coarse_cost (2 / 125) (1 / 5)\<rparr>
            (probe True (1 / 10) False) idle_world
       = Some (Inr (False, None), w') \<and> 1 / 10 \<le> now w' - now idle_world
       \<and> now w' - now idle_world \<le> 1 / 10 + 2 / 125 + 1 / 5"
  using run_not_found_time_bounds
    [of "probe True (1 / 10) False" "\<lparr>screen = blank_screen, cost = coarse_cost (2 / 125) (1 / 5)\<rparr>"
        idle_world]
  by (simp add: probe_def blank_screen_def)

text \<open>
  C4, as stated: every \<^verbatim>\<open>with\<close> block over \<^verbatim>\<open>Web\<close> invokes the full teardown exactly once on
  every exit path. Three uses where it does not. A body that calls \<^verbatim>\<open>close\<close> itself: the
  four teardown calls are made twice. A navigation that fails inside \<^verbatim>\<open>__enter__\<close>:
  the statement is left with engine, browser, context and page opened and no teardown call
  at all. A context that fails to close: the teardown stops after the page.
\<close>

theorem with_Web_teardown_not_once:
  "filter is_teardown
     (snd (with_Web no_failure (Web_init ''https://example.org'') (closing_body no_failure) []))
     = [Page_close, Context_close, Browser_close, Playwright_stop,
        Page_close, Context_close, Browser_close, Playwright_stop]
   \<and> with_Web goto_fails (Web_init ''https://example.org'') empty_body []
     = (Some (PlaywrightError (Goto ''https://example.org'')),
        [Playwright_start, Chromium_launch False, New_context, New_page])
   \<and> with_Web context_close_fails (Web_init ''https://example.org'') empty_body []
     = (Some (PlaywrightError Context_close),
        [Playwright_start, Chromium_launch False, New_context, New_page,
         Goto ''https://example.org'', Page_close])"
  by (simp add: with_Web_def Web_enter_def Web_exit_def Web_start_def Web_close_def Web_init_def
        closing_body_def empty_body_def no_failure_def)

text \<open>
  C4, amended: for every \<^verbatim>\<open>with\<close> block over \<^verbatim>\<open>Web\<close> whose \<^verbatim>\<open>__enter__\<close> returns, whose body
  does not itself make a teardown call, and in which none of the four teardown calls fails,
  the full teardown is invoked exactly once on every way out of the block, also when the
  body raises: the statement ends with page close, context close, browser close, engine
  stop, in this order, directly after whatever the body did; these are the only teardown
  calls it adds to the session; and what the body raised is passed on.
\<close>

theorem with_Web_teardown_once:
  assumes "fst (Web_enter fails web l) = None"
    and "\<not> fails Page_close" and "\<not> fails Context_close"
    and "\<not> fails Browser_close" and "\<not> fails Playwright_stop"
    and "filter is_teardown (snd (snd (body web (snd (Web_enter fails web l)))))
           = filter is_teardown (snd (Web_enter fails web l))"
  shows "snd (with_Web fails web body l) =
           snd (snd (body web (snd (Web_enter fails web l))))
             @ [Page_close, Context_close, Browser_close, Playwright_stop]
   \<and> fst (with_Web fails web body l) = fst (body web (snd (Web_enter fails web l)))
   \<and> filter is_teardown (snd (with_Web fails web body l)) =
       filter is_teardown l @ [Page_close, Context_close, Browser_close, Playwright_stop]"
proof -
  obtain l1 where entered: "Web_enter fails web l = (None, l1)"
    using assms(1) by (cases "Web_enter fails web l") simp
  from assms(1) have "snd (Web_enter fails web l) =
      l @ [Playwright_start, Chromium_launch (headless web), New_context, New_page, Goto (url web)]"
    unfolding Web_enter_def Web_start_def by (rule pw_calls_None)
  with entered have same: "filter is_teardown l1 = filter is_teardown l"
    by simp
  obtain raised web2 l2 where body: "body web l1 = (raised, web2, l2)"
    by (cases "body web l1")
  have "Web_exit fails raised web2 l2 =
      (None, l2 @ [Page_close, Context_close, Browser_close, Playwright_stop])"
    unfolding Web_exit_def Web_close_def using assms(2-5) by (intro pw_calls_all) simp
  with entered body have "with_Web fails web body l =
      (raised, l2 @ [Page_close, Context_close, Browser_close, Playwright_stop])"
    by (simp add: with_Web_def)
  with body entered assms(6) same show ?thesis
    by simp
qed

theorem with_Web_teardown_once_witness:
  "snd (with_Web no_failure (Web_init ''https://example.org'') (failing_body no_failure) []) =
     [Playwright_start, Chromium_launch False, New_context, New_page, Goto ''https://example.org'',
      Goto ''https://example.org/next'',
      Page_close, Context_close, Browser_close, Playwright_stop]
   \<and> fst (with_Web no_failure (Web_init ''https://example.org'') (failing_body no_failure) []) =
       Some (ValueError ''`regex` is unsupported'')
   \<and> filter is_teardown
       (snd (with_Web no_failure (Web_init ''https://example.org'') (failing_body no_failure) [])) =
       [Page_close, Context_close, Browser_close, Playwright_stop]"
  using with_Web_teardown_once
    [of no_failure "Web_init ''https://example.org''" "[]" "failing_body no_failure"]
  by (simp add: failing_body_def Web_redirect_def Web_find_def Web_enter_def Web_start_def
        Web_init_def no_failure_def)

text \<open>
  C5. An \<^verbatim>\<open>IOClick\<close> with \<^verbatim>\<open>clicks = 3\<close> and \<^verbatim>\<open>interval_wait = 0.5\<close> performs exactly three
  clicks, each directly after a sleep of \<open>0.5\<close>, so that successive clicks are at least
  \<open>0.5\<close> apart; \<open>k\<close> is the time one click takes, which is not negative, and \<open>d\<close> the time
  the sleep really lasts, which is \<open>0.5\<close> at least.
\<close>

theorem IOClick_run_three_clicks:
  assumes "k = cost e (Click (cx c) (cy c) (button c) 1)" and "0 \<le> k"
    and "d = cost e (Sleep (1 / 2))" and "1 / 2 \<le> d"
  shows "\<exists>w' t1 t2 t3. IOClick_run e (c\<lparr>clicks := 3, interval_wait := 1 / 2\<rparr>) w = Inr w'
     \<and> calls w' = calls w @
        [(now w, Sleep (1 / 2)), (t1, Click (cx c) (cy c) (button c) 1),
         (t1 + k, Sleep (1 / 2)), (t2, Click (cx c) (cy c) (button c) 1),
         (t2 + k, Sleep (1 / 2)), (t3, Click (cx c) (cy c) (button c) 1)]
     \<and> t1 = now w + d \<and> 1 / 2 \<le> t2 - t1 \<and> 1 / 2 \<le> t3 - t2"
proof -
  let ?c = "c\<lparr>clicks := 3, interval_wait := 1 / 2\<rparr>"
  have three: "nat (clicks ?c) = Suc (Suc (Suc 0))"
    by simp
  have "\<exists>w'. IOClick_run e ?c w = Inr w'
     \<and> calls w' = calls w @
        [(now w, Sleep (1 / 2)), (now w + d, Click (cx c) (cy c) (button c) 1),
         (now w + d + k, Sleep (1 / 2)), (now w + d + k + d, Click (cx c) (cy c) (button c) 1),
         (now w + d + k + d + k, Sleep (1 / 2)),
         (now w + d + k + d + k + d, Click (cx c) (cy c) (button c) 1)]"
    unfolding IOClick_run_def three
    by (simp add: click_loop_Suc now_pg_click calls_pg_click now_lib_call calls_lib_call
          assms(1,3) del: click_loop.simps(2))
  then obtain w' where "IOClick_run e ?c w = Inr w'"
    and "calls w' = calls w @
        [(now w, Sleep (1 / 2)), (now w + d, Click (cx c) (cy c) (button c) 1),
         (now w + d + k, Sleep (1 / 2)), (now w + d + k + d, Click (cx c) (cy c) (button c) 1),
         (now w + d + k + d + k, Sleep (1 / 2)),
         (now w + d + k + d + k + d, Click (cx c) (cy c) (button c) 1)]"
    by (elim exE conjE)
  with assms(2,4) show ?thesis
    by (intro exI [of _ w'] exI [of _ "now w + d"] exI [of _ "now w + d + k + d"]
          exI [of _ "now w + d + k + d + k + d"]) simp
qed

theorem IOClick_run_three_clicks_witness:
  "\<exists>w' t1 t2 t3. IOClick_run \<lparr>screen = blank_screen, cost = flat_cost (1 / 10)\<rparr>
        (IOClick_init\<lparr>clicks := 3, interval_wait := 1 / 2\<rparr>) idle_world = Inr w'
     \<and> calls w' =
        [(0, Sleep (1 / 2)), (t1, Click None None ''primary'' 1),
         (t1 + 1 / 10, Sleep (1 / 2)), (t2, Click None None ''primary'' 1),
         (t2 + 1 / 10, Sleep (1 / 2)), (t3, Click None None ''primary'' 1)]
     \<and> t1 = 1 / 2 \<and> 1 / 2 \<le> t2 - t1 \<and> 1 / 2 \<le> t3 - t2"
  using IOClick_run_three_clicks
    [of "1 / 10" "\<lparr>screen = blank_screen, cost = flat_cost (1 / 10)\<rparr>" IOClick_init "1 / 2" idle_world]
  by (simp add: IOClick_init_def idle_world_def)

text \<open>
  C6. \<^verbatim>\<open>Web.find\<close> raises the unsupported-strategy \<^verbatim>\<open>ValueError\<close> for every strategy other
  than \<^verbatim>\<open>xpath\<close>, \<^verbatim>\<open>css\<close>, \<^verbatim>\<open>id\<close>, \<^verbatim>\<open>class\<close> and \<^verbatim>\<open>text\<close>, and returns a locator for each
  of these five.
\<close>

theorem Web_find_strategies:
  "(by \<notin> {''xpath'', ''css'', ''id'', ''class'', ''text''} \<longrightarrow>
      Web_find selector by = Inl (ValueError (''`'' @ by @ ''` is unsupported'')))
   \<and> (by \<in> {''xpath'', ''css'', ''id'', ''class'', ''text''} \<longrightarrow>
      (\<exists>loc. Web_find selector by = Inr loc))"
  by (auto simp add: Web_find_def)

theorem Web_find_strategies_witness:
  "Web_find ''main'' ''regex'' = Inl (ValueError ''`regex` is unsupported'')
   \<and> (\<exists>loc. Web_find ''main'' ''xpath'' = Inr loc)"
  using Web_find_strategies [of "''regex''" "''main''"] Web_find_strategies [of "''xpath''" "''main''"]
  by simp

text \<open>
  C7. \<^verbatim>\<open>IOPixel.set_rgb\<close> fails an assertion when a channel is outside \<open>0..255\<close>, and
  otherwise succeeds and stores the triple.
\<close>

theorem set_rgb_range_check:
  "(\<not> (0 \<le> r \<and> r \<le> 255 \<and> 0 \<le> g \<and> g \<le> 255 \<and> 0 \<le> b \<and> b \<le> 255) \<longrightarrow>
      (\<exists>msg. set_rgb r g b p = Inl (AssertionError msg)))
   \<and> (0 \<le> r \<and> r \<le> 255 \<and> 0 \<le> g \<and> g \<le> 255 \<and> 0 \<le> b \<and> b \<le> 255 \<longrightarrow>
      set_rgb r g b p = Inr (p\<lparr>rgb := Some (r, g, b)\<rparr>))"
  by (simp add: set_rgb_def)

theorem set_rgb_range_check_witness:
  "(\<exists>msg. set_rgb 12 256 0 (IOPixel_init None None) = Inl (AssertionError msg))
   \<and> set_rgb 0 128 255 (IOPixel_init None None) = Inr \<lparr>px = None, py = None, rgb = Some (0, 128, 255)\<rparr>"
  using set_rgb_range_check [of 12 256 0 "IOPixel_init None None"]
    set_rgb_range_check [of 0 128 255 "IOPixel_init None None"]
  by (simp add: IOPixel_init_def)

text \<open>
  C8. \<^verbatim>\<open>IOImage.is_existing\<close> queries the screen once and returns a pair in either case:
  \<^verbatim>\<open>(False, None)\<close> when the image is absent, \<^verbatim>\<open>(True, region)\<close> when it is found. It adds
  the one query to the calls made and leaves the pointer alone.
\<close>

theorem is_existing_outcome:
  "(screen e (path img) (now w) = None \<longrightarrow> fst (is_existing e img w) = (False, None))
   \<and> (\<forall>b. screen e (path img) (now w) = Some b \<longrightarrow> fst (is_existing e img w) = (True, Some b))
   \<and> calls (snd (is_existing e img w)) = calls w @ [(now w, LocateOnScreen (path img))]
   \<and> pointer (snd (is_existing e img w)) = pointer w"
  by (cases "screen e (path img) (now w)")
     (simp_all add: is_existing_absent is_existing_present lib_call_def)

theorem is_existing_outcome_witness:
  "fst (is_existing \<lparr>screen = blank_screen, cost = flat_cost 0\<rparr> (probe False (- 1) False) idle_world)
     = (False, None)
   \<and> fst (is_existing \<lparr>screen = steady_screen (Box 100 200 50 40), cost = flat_cost 0\<rparr>
            (probe False (- 1) False) idle_world)
     = (True, Some (Box 100 200 50 40))
   \<and> calls (snd (is_existing \<lparr>screen = blank_screen, cost = flat_cost 0\<rparr>
                   (probe False (- 1) False) idle_world))
     = [(0, LocateOnScreen ''button.png'')]"
  using is_existing_outcome
      [of "\<lparr>screen = blank_screen, cost = flat_cost 0\<rparr>" "probe False (- 1) False" idle_world]
    is_existing_outcome
      [of "\<lparr>screen = steady_screen (Box 100 200 50 40), cost = flat_cost 0\<rparr>"
          "probe False (- 1) False" idle_world]
  by (simp add: blank_screen_def steady_screen_def probe_def idle_world_def)

text \<open>
  C9. In the timed polling branch one sleep of a poll interval and the test of the timeout
  come before every screen query: in the calls a returning run has added, each query
  directly follows such a sleep, and each query was issued at an elapsed time below the
  timeout. So for a timeout of at most one poll interval the run sleeps once and returns
  \<^verbatim>\<open>(False, None)\<close> without a single query, whatever is on the screen; the sleep lasts at
  least the poll interval.
\<close>

theorem run_short_timeout_never_queries:
  assumes "wait_for img" and "timeout img \<noteq> - 1"
  shows "(\<forall>y. IOImage_run e img w = Some y \<longrightarrow>
            (\<exists>cs. calls (snd y) = calls w @ cs \<and> sleep_guards_locate (map snd cs)
               \<and> queries_before (now w + timeout img) cs))
   \<and> (timeout img \<le> 1 / 100 \<and> 1 / 100 \<le> cost e (Sleep (1 / 100)) \<longrightarrow>
        IOImage_run e img w =
          Some (Inr (False, None),
                w\<lparr>now := now w + cost e (Sleep (1 / 100)),
                   calls := calls w @ [(now w, Sleep (1 / 100))]\<rparr>))"
proof (intro conjI allI impI)
  fix y
  assume "IOImage_run e img w = Some y"
  with assms have "poll_timed e img (now w) w = Some y"
    by (simp add: IOImage_run_def)
  from poll_timed_trace [OF this]
  show "\<exists>cs. calls (snd y) = calls w @ cs \<and> sleep_guards_locate (map snd cs)
               \<and> queries_before (now w + timeout img) cs"
    by blast
next
  assume "timeout img \<le> 1 / 100 \<and> 1 / 100 \<le> cost e (Sleep (1 / 100))"
  then have "timeout img \<le> now w + cost e (Sleep (1 / 100)) - now w"
    by simp
  from poll_timed_expired [OF this] assms
  show "IOImage_run e img w =
          Some (Inr (False, None),
                w\<lparr>now := now w + cost e (Sleep (1 / 100)),
                   calls := calls w @ [(now w, Sleep (1 / 100))]\<rparr>)"
    by (simp add: IOImage_run_def lib_call_def)
qed

text \<open>
  Two such runs. With a timeout of one poll interval and the image on the screen all the
  time, the run makes no query. With a timeout of \<open>0.025\<close> seconds and an image that shows
  only from \<open>0.05\<close> seconds on, the run queries at \<open>0.01\<close> and \<open>0.02\<close>, each time directly
  after a sleep and before the timeout, and gives up after the third sleep.
\<close>

theorem run_short_timeout_never_queries_witness:
  "IOImage_run \<lparr>screen = steady_screen (Box 100 200 50 40), cost = flat_cost 0\<rparr>
       (probe True (1 / 100) True) idle_world =
     Some (Inr (False, None), \<lparr>now = 1 / 100, pointer = (0, 0), calls = [(0, Sleep (1 / 100))]\<rparr>)
   \<and> IOImage_run \<lparr>screen = late_screen (1 / 20) (Box 100 200 50 40), cost = flat_cost 0\<rparr>
       (probe True (1 / 40) True) idle_world =
     Some (Inr (False, None),
       \<lparr>now = 3 / 100, pointer = (0, 0),
        calls = [(0, Sleep (1 / 100)), (1 / 100, LocateOnScreen ''button.png''),
                 (1 / 100, Sleep (1 / 100)), (1 / 50, LocateOnScreen ''button.png''),
                 (1 / 50, Sleep (1 / 100))]\<rparr>)
   \<and> sleep_guards_locate
       [Sleep (1 / 100), LocateOnScreen ''button.png'', Sleep (1 / 100),
        LocateOnScreen ''button.png'', Sleep (1 / 100)]
   \<and> queries_before (1 / 40)
       [(0, Sleep (1 / 100)), (1 / 100, LocateOnScreen ''button.png''),
        (1 / 100, Sleep (1 / 100)), (1 / 50, LocateOnScreen ''button.png''),
        (1 / 50, Sleep (1 / 100))]"
proof -
  let ?e = "\<lparr>screen = late_screen (1 / 20) (Box 100 200 50 40), cost = flat_cost 0\<rparr>"
  let ?y = "(Inr (False, None) :: py_error + bool \<times> Box option,
       \<lparr>now = 3 / 100, pointer = (0, 0),
        calls = [(0, Sleep (1 / 100)), (1 / 100, LocateOnScreen ''button.png''),
                 (1 / 100, Sleep (1 / 100)), (1 / 50, LocateOnScreen ''button.png''),
                 (1 / 50, Sleep (1 / 100))]\<rparr>)"
  have short: "IOImage_run \<lparr>screen = steady_screen (Box 100 200 50 40), cost = flat_cost 0\<rparr>
       (probe True (1 / 100) True) idle_world =
     Some (Inr (False, None), \<lparr>now = 1 / 100, pointer = (0, 0), calls = [(0, Sleep (1 / 100))]\<rparr>)"
    using run_short_timeout_never_queries
      [of "probe True (1 / 100) True"
          "\<lparr>screen = steady_screen (Box 100 200 50 40), cost = flat_cost 0\<rparr>" idle_world]
    by (simp add: probe_def idle_world_def)
  have "poll_timed ?e (probe True (1 / 40) True) 0 idle_world = Some ?y"
    by (simp add: poll_timed_absent_step poll_timed_expired probe_def idle_world_def
          late_screen_def lib_call_def)
  then have long: "IOImage_run ?e (probe True (1 / 40) True) idle_world = Some ?y"
    by (simp add: IOImage_run_def probe_def idle_world_def)
  have "\<forall>y. IOImage_run ?e (probe True (1 / 40) True) idle_world = Some y \<longrightarrow>
            (\<exists>cs. calls (snd y) = calls idle_world @ cs \<and> sleep_guards_locate (map snd cs)
               \<and> queries_before (now idle_world + timeout (probe True (1 / 40) True)) cs)"
    using run_short_timeout_never_queries [of "probe True (1 / 40) True" ?e idle_world]
    by (simp add: probe_def)
  with long have "\<exists>cs. calls (snd ?y) = calls idle_world @ cs \<and> sleep_guards_locate (map snd cs)
               \<and> queries_before (now idle_world + timeout (probe True (1 / 40) True)) cs"
    by blast
  then have "sleep_guards_locate
       [Sleep (1 / 100), LocateOnScreen ''button.png'', Sleep (1 / 100),
        LocateOnScreen ''button.png'', Sleep (1 / 100)]
   \<and> queries_before (1 / 40)
       [(0, Sleep (1 / 100)), (1 / 100, LocateOnScreen ''button.png''),
        (1 / 100, Sleep (1 / 100)), (1 / 50, LocateOnScreen ''button.png''),
        (1 / 50, Sleep (1 / 100))]"
    by (auto simp add: probe_def idle_world_def)
  with short long show ?thesis
    by simp
qed

text \<open>
  C10. \<^verbatim>\<open>IOClick.repeat\<close> fails its assertion for a count of zero and for no other count;
  a negative count is stored, and a run with that count and a nonzero \<^verbatim>\<open>interval_wait\<close>
  makes no call at all, so no click.
\<close>

theorem repeat_rejects_only_zero:
  "(IOClick_repeat n c = Inl (AssertionError ''Cannot click 0 times'') \<longleftrightarrow> n = 0)
   \<and> (n \<noteq> 0 \<longrightarrow> IOClick_repeat n c = Inr (c\<lparr>clicks := n\<rparr>))
   \<and> (n < 0 \<and> interval_wait c \<noteq> 0 \<longrightarrow> IOClick_run e (c\<lparr>clicks := n\<rparr>) w = Inr w)"
  by (simp add: IOClick_repeat_def IOClick_run_def)

theorem repeat_rejects_only_zero_witness:
  "IOClick_repeat 0 IOClick_init = Inl (AssertionError ''Cannot click 0 times'')
   \<and> IOClick_repeat (- 2) (IOClick_wait (1 / 2) IOClick_init)
       = Inr ((IOClick_wait (1 / 2) IOClick_init)\<lparr>clicks := - 2\<rparr>)
   \<and> IOClick_run \<lparr>screen = blank_screen, cost = flat_cost 0\<rparr>
       ((IOClick_wait (1 / 2) IOClick_init)\<lparr>clicks := - 2\<rparr>) idle_world = Inr idle_world"
  using repeat_rejects_only_zero [of 0 IOClick_init]
    repeat_rejects_only_zero
      [of "- 2" "IOClick_wait (1 / 2) IOClick_init" "\<lparr>screen = blank_screen, cost = flat_cost 0\<rparr>"
          idle_world]
  by (simp add: IOClick_wait_def IOClick_init_def)

end
